theory Spec2Isabelle
  imports Main
begin

section \<open>Strings and buffers\<close>

text \<open>
  A JavaScript string and a Node \<open>Buffer\<close> are both modelled as a list of
  characters (HOL's \<open>char\<close> is one byte).  The three library operations the launcher
  calls on them are \<open>includes\<close> (a contiguous sub-sequence search, the same for
  \<open>String.prototype.includes\<close> and \<open>Buffer.prototype.includes\<close>),
  \<open>endsWith\<close> and the template literal that wraps a string in double quotes.
\<close>

type_synonym Buffer = "char list"

fun startsWith :: "'a list \<Rightarrow> 'a list \<Rightarrow> bool" where
  "startsWith xs [] = True"
| "startsWith [] (y # ys) = False"
| "startsWith (x # xs) (y # ys) = (x = y \<and> startsWith xs ys)"

fun includes_list :: "'a list \<Rightarrow> 'a list \<Rightarrow> bool" where
  "includes_list [] d = startsWith [] d"
| "includes_list (x # xs) d = (startsWith (x # xs) d \<or> includes_list xs d)"

definition endsWith :: "'a list \<Rightarrow> 'a list \<Rightarrow> bool" where
  "endsWith s suf =
     (length suf \<le> length s \<and> drop (length s - length suf) s = suf)"

text \<open>The template literal that puts a string between two double quotes.\<close>

definition quoted :: "string \<Rightarrow> string" where
  "quoted a = [CHR 0x22] @ a @ [CHR 0x22]"

section \<open>The argument normalizer: \<open>formatArguments\<close>\<close>

text \<open>
  \<open>process.platform\<close> and \<open>urlUtils.platformPathToPreferredCase\<close> are not part
  of the file; both are parameters of the model (\<open>platform\<close> and
  \<open>platformPathToPreferredCase\<close>).
\<close>

record InvocationTuple =
  executable :: string
  args :: "string list"
  shell :: bool
  cwd :: string

text \<open>
  Lines 123 to 131: the Windows-only rewriting of the three local variables
  \<open>executable\<close>, \<open>args\<close> and \<open>cwd\<close>.
\<close>

definition win32Rewrite ::
  "(string \<Rightarrow> string) \<Rightarrow> string \<Rightarrow> string \<Rightarrow> string list \<Rightarrow> string
     \<Rightarrow> string \<times> string list \<times> string" where
  "win32Rewrite platformPathToPreferredCase platform executable0 args0 cwd0 =
     (if platform = ''win32'' then
        (let executable1 = platformPathToPreferredCase executable0;
             cwd1 = platformPathToPreferredCase cwd0
         in if endsWith executable1 ''.ps1''
            then (''powershell.exe'', [''-File'', executable1] @ args0, cwd1)
            else (executable1, args0, cwd1))
      else (executable0, args0, cwd0))"

text \<open>
  Lines 137 to 148: the loop over \<open>args\<close>, with its two loop variables
  \<open>output\<close> and \<open>foundArgWithSpace\<close>.
\<close>

fun quoteLoop :: "string list \<Rightarrow> string list \<Rightarrow> bool \<Rightarrow> string list \<times> bool" where
  "quoteLoop [] output foundArgWithSpace = (output, foundArgWithSpace)"
| "quoteLoop (a # as) output foundArgWithSpace =
     (if includes_list a '' ''
      then quoteLoop as (output @ [quoted a]) True
      else quoteLoop as (output @ [a]) foundArgWithSpace)"

definition formatArguments ::
  "(string \<Rightarrow> string) \<Rightarrow> string \<Rightarrow> string \<Rightarrow> string list \<Rightarrow> string
     \<Rightarrow> InvocationTuple" where
  "formatArguments platformPathToPreferredCase platform executable0 args0 cwd0 =
     (case win32Rewrite platformPathToPreferredCase platform executable0 args0 cwd0 of
        (executable1, args1, cwd1) \<Rightarrow>
          if platform \<noteq> ''win32'' \<or> \<not> includes_list executable1 '' ''
          then \<lparr>executable = executable1, args = args1, shell = False, cwd = cwd1\<rparr>
          else (case quoteLoop args1 [] False of
                  (output, foundArgWithSpace) \<Rightarrow>
                    if foundArgWithSpace
                    then \<lparr>executable = quoted executable1, args = output,
                           shell = True, cwd = cwd1\<rparr>
                    else \<lparr>executable = executable1, args = args1,
                           shell = False, cwd = cwd1\<rparr>))"

section \<open>The output sink and the child process\<close>

text \<open>
  \<open>dap.output\<close> appends one event to the sink, so the sink is the list of the
  events sent so far.
\<close>

record OutputEvent =
  category :: string
  output_text :: string

definition dap_output :: "OutputEvent list \<Rightarrow> OutputEvent \<Rightarrow> OutputEvent list" where
  "dap_output dap ev = dap @ [ev]"

text \<open>
  The listeners the two routers register.  \<open>StdOutTracker\<close> and
  \<open>StdErrTracker\<close> stand for the \<open>consumeStdStreamData\<close> callbacks of the two
  \<open>StdStreamTracker\<close> objects; the other three are the closures of
  \<open>discardStdio\<close>.
\<close>

datatype listener =
  StdOutTracker | StdErrTracker | ErrLineReader | ErrorHandler | ExitHandler

text \<open>
  The child process as the launcher sees it: what it was spawned with, the listeners
  on its two streams and on its \<open>error\<close> and \<open>exit\<close> events, and whether each
  stream has been resumed.
\<close>

record ChildProcess =
  spawnfile :: string
  spawnargs :: "string list"
  spawn_shell :: bool
  spawn_cwd :: string
  stdout_data :: "listener list"
  stderr_data :: "listener list"
  error_listeners :: "listener list"
  exit_listeners :: "listener list"
  stdout_flowing :: bool
  stderr_flowing :: bool

text \<open>
  \<open>spawn\<close> returns a new process object: nothing listens to it yet and its streams
  are paused.  The environment handed to \<open>spawn\<close> is built by
  \<open>EnvironmentVars\<close>, which is outside the file, and is left out.  The model
  describes the launches in which \<open>spawn\<close> returns; a failure to start the
  program is delivered later, as the \<open>error\<close> event of the child.
\<close>

definition spawn :: "string \<Rightarrow> string list \<Rightarrow> bool \<Rightarrow> string \<Rightarrow> ChildProcess" where
  "spawn file argv sh dir =
     \<lparr>spawnfile = file, spawnargs = argv, spawn_shell = sh, spawn_cwd = dir,
      stdout_data = [], stderr_data = [], error_listeners = [], exit_listeners = [],
      stdout_flowing = False, stderr_flowing = False\<rparr>"

text \<open>
  \<open>emitter.on\<close> appends a listener; \<open>emitter.removeListener\<close> removes the most
  recently added instance of it.
\<close>

definition on :: "listener \<Rightarrow> listener list \<Rightarrow> listener list" where
  "on l ls = ls @ [l]"

definition removeListener :: "listener \<Rightarrow> listener list \<Rightarrow> listener list" where
  "removeListener l ls = rev (remove1 l (rev ls))"

record ErrorObj =
  stack :: "string option"
  message :: string

text \<open>\<open>err.stack || err.message\<close>: an undefined or empty stack is falsy.\<close>

definition stack_or_message :: "ErrorObj \<Rightarrow> string" where
  "stack_or_message err =
     (case stack err of
        Some st \<Rightarrow> if st \<noteq> [] then st else message err
      | None \<Rightarrow> message err)"

text \<open>
  The decimal text of an exit code, as the template literal prints it (an exit code is
  an integer, which JavaScript prints in plain decimal).
\<close>

function decimal :: "nat \<Rightarrow> string" where
  "decimal n =
     (if n < 10 then [''0123456789'' ! n]
      else decimal (n div 10) @ [''0123456789'' ! (n mod 10)])"
  by pat_completeness auto
termination
  by (relation "measure (\<lambda>n. n)") auto

definition numberToString :: "int \<Rightarrow> string" where
  "numberToString c = (if c < 0 then ''-'' @ decimal (nat (- c)) else decimal (nat c))"

section \<open>The capture router: \<open>captureStdio\<close>\<close>

definition captureStdio :: "OutputEvent list \<Rightarrow> ChildProcess \<Rightarrow> OutputEvent list \<times> ChildProcess" where
  "captureStdio dap child =
     (dap,
      child\<lparr>stdout_data := on StdOutTracker (stdout_data child),
            stderr_data := on StdErrTracker (stderr_data child),
            stdout_flowing := True,
            stderr_flowing := True\<rparr>)"

section \<open>The discard router: \<open>discardStdio\<close>\<close>

text \<open>
  The state the closures of \<open>discardStdio\<close> share: the variable
  \<open>preLaunchBuffer\<close> (\<open>None\<close> is \<open>undefined\<close>), the child and the sink.
  \<open>Buffer.prototype.toString\<close> is a parameter of the model.
\<close>

record DiscardStdio =
  preLaunchBuffer :: "Buffer list option"
  child :: ChildProcess
  dap :: "OutputEvent list"

definition delimiter :: Buffer where
  "delimiter = ''Debugger attached.''"

definition dumpFilter :: "(Buffer \<Rightarrow> string) \<Rightarrow> DiscardStdio \<Rightarrow> DiscardStdio" where
  "dumpFilter toString s =
     (case preLaunchBuffer s of
        Some bufs \<Rightarrow>
          s\<lparr>dap := dap_output (dap s)
                 \<lparr>category = ''stderr'', output_text = toString (concat bufs)\<rparr>\<rparr>
      | None \<Rightarrow> s)"

definition errLineReader :: "Buffer \<Rightarrow> DiscardStdio \<Rightarrow> DiscardStdio" where
  "errLineReader data s =
     (if includes_list data delimiter
      then s\<lparr>preLaunchBuffer := None,
             child := (child s)\<lparr>stderr_data :=
                        removeListener ErrLineReader (stderr_data (child s))\<rparr>\<rparr>
      else (case preLaunchBuffer s of
              Some bufs \<Rightarrow> s\<lparr>preLaunchBuffer := Some (bufs @ [data])\<rparr>
            | None \<Rightarrow> s))"

definition errorHandler :: "(Buffer \<Rightarrow> string) \<Rightarrow> ErrorObj \<Rightarrow> DiscardStdio \<Rightarrow> DiscardStdio" where
  "errorHandler toString err s =
     (let s1 = dumpFilter toString s
      in s1\<lparr>dap := dap_output (dap s1)
                 \<lparr>category = ''stderr'', output_text = stack_or_message err\<rparr>\<rparr>)"

definition exitHandler :: "(Buffer \<Rightarrow> string) \<Rightarrow> int option \<Rightarrow> DiscardStdio \<Rightarrow> DiscardStdio" where
  "exitHandler toString code s =
     (case code of
        None \<Rightarrow> s
      | Some c \<Rightarrow>
          if c > 0
          then (let s1 = dumpFilter toString s
                in s1\<lparr>dap := dap_output (dap s1)
                         \<lparr>category = ''stderr'',
                          output_text = ''Process exited with code '' @ numberToString c
                                          @ [CHR 0x0D, CHR 0x0A]\<rparr>\<rparr>)
          else s)"

definition discardStdio :: "OutputEvent list \<Rightarrow> ChildProcess \<Rightarrow> DiscardStdio" where
  "discardStdio dap0 child0 =
     \<lparr>preLaunchBuffer = Some [],
      child = child0\<lparr>stderr_data := on ErrLineReader (stderr_data child0),
                     error_listeners := on ErrorHandler (error_listeners child0),
                     exit_listeners := on ExitHandler (exit_listeners child0),
                     stdout_flowing := True,
                     stderr_flowing := True\<rparr>,
      dap = dap0\<rparr>"

text \<open>
  What the child process can deliver, and how an event reaches the closures of
  \<open>discardStdio\<close>: a closure runs when it is among the listeners of the event.
  Nothing of the discard router listens to \<open>stdout\<close>.
\<close>

datatype ChildEvent =
  StderrData Buffer | StdoutData Buffer | ErrorEvent ErrorObj | ExitEvent "int option"

fun emit :: "(Buffer \<Rightarrow> string) \<Rightarrow> DiscardStdio \<Rightarrow> ChildEvent \<Rightarrow> DiscardStdio" where
  "emit toString s (StderrData data) =
     (if ErrLineReader \<in> set (stderr_data (child s)) then errLineReader data s else s)"
| "emit toString s (StdoutData data) = s"
| "emit toString s (ErrorEvent err) =
     (if ErrorHandler \<in> set (error_listeners (child s)) then errorHandler toString err s
      else s)"
| "emit toString s (ExitEvent code) =
     (if ExitHandler \<in> set (exit_listeners (child s)) then exitHandler toString code s
      else s)"

fun emits :: "(Buffer \<Rightarrow> string) \<Rightarrow> DiscardStdio \<Rightarrow> ChildEvent list \<Rightarrow> DiscardStdio" where
  "emits toString s [] = s"
| "emits toString s (ev # evs) = emits toString (emit toString s ev) evs"

section \<open>The launcher\<close>

text \<open>
  Modelled from the spec: the enum \<open>OutputSource\<close> of the configuration module is
  not part of the file; the spec gives the output-capture mode the two variants
  console and capture.
\<close>

datatype OutputSource = Console | Capture

text \<open>
  The fields of \<open>INodeLaunchConfiguration\<close> the launcher reads itself.
  \<open>getNodeLaunchArgs\<close> is outside the file and is a parameter of
  \<open>launchProgram\<close>.
\<close>

record INodeLaunchConfiguration =
  console :: string
  config_cwd :: string
  outputCapture :: OutputSource

definition canLaunch :: "INodeLaunchConfiguration \<Rightarrow> bool" where
  "canLaunch config = (console config = ''internalConsole'')"

text \<open>\<open>Array.prototype.join\<close> with a single space.\<close>

fun join_space :: "string list \<Rightarrow> string" where
  "join_space [] = []"
| "join_space [x] = x"
| "join_space (x # y # ys) = x @ '' '' @ join_space (y # ys)"

text \<open>
  What a launch leaves behind: the child with the listeners of the router that was
  attached, the sink, and on the discard path the closure state of the router.
\<close>

datatype Launched =
  Discarding DiscardStdio
| Capturing "OutputEvent list" ChildProcess

definition launchProgram ::
  "(INodeLaunchConfiguration \<Rightarrow> string list) \<Rightarrow> (string \<Rightarrow> string) \<Rightarrow> string
     \<Rightarrow> OutputEvent list \<Rightarrow> string \<Rightarrow> INodeLaunchConfiguration \<Rightarrow> Launched" where
  "launchProgram getNodeLaunchArgs platformPathToPreferredCase platform dap0 binary config =
     (let t = formatArguments platformPathToPreferredCase platform binary
                (getNodeLaunchArgs config) (config_cwd config);
          dap1 = dap_output dap0
                   \<lparr>category = ''console'',
                    output_text = join_space (executable t # args t) @ [CHR 0x0A]\<rparr>;
          child0 = spawn (executable t) (args t) (shell t) (cwd t)
      in if outputCapture config = Console
         then Discarding (discardStdio dap1 child0)
         else (case captureStdio dap1 child0 of (dap2, child1) \<Rightarrow> Capturing dap2 child1))"

fun launched_child :: "Launched \<Rightarrow> ChildProcess" where
  "launched_child (Discarding s) = child s"
| "launched_child (Capturing d c) = c"

text \<open>
  A router is attached to a child when its listeners are registered on it.
\<close>

definition captureAttached :: "ChildProcess \<Rightarrow> bool" where
  "captureAttached c =
     (StdOutTracker \<in> set (stdout_data c) \<and> StdErrTracker \<in> set (stderr_data c))"

definition discardAttached :: "ChildProcess \<Rightarrow> bool" where
  "discardAttached c =
     (ErrLineReader \<in> set (stderr_data c) \<and> ErrorHandler \<in> set (error_listeners c)
      \<and> ExitHandler \<in> set (exit_listeners c))"

section \<open>Vocabulary of the statements\<close>

text \<open>
  The \<open>stderr\<close> chunks of a sequence of events, in arrival order, and the events a
  handler sends to the sink besides the flush of \<open>dumpFilter\<close>: the text of the
  error, or the report of a positive exit code.
\<close>

fun stderrChunks :: "ChildEvent list \<Rightarrow> Buffer list" where
  "stderrChunks [] = []"
| "stderrChunks (StderrData d # evs) = d # stderrChunks evs"
| "stderrChunks (ev # evs) = stderrChunks evs"

fun reportOnly :: "ChildEvent \<Rightarrow> OutputEvent list" where
  "reportOnly (ErrorEvent err) =
     [\<lparr>category = ''stderr'', output_text = stack_or_message err\<rparr>]"
| "reportOnly (ExitEvent (Some c)) =
     (if c > 0
      then [\<lparr>category = ''stderr'',
             output_text = ''Process exited with code '' @ numberToString c
                             @ [CHR 0x0D, CHR 0x0A]\<rparr>]
      else [])"
| "reportOnly ev = []"

text \<open>
  The number a string of decimal digits denotes, read from the left.
\<close>

definition decimalValue :: "string \<Rightarrow> nat" where
  "decimalValue t = foldl (\<lambda>acc ch. 10 * acc + (of_char ch - 48)) 0 t"

section \<open>Facts about the string operations\<close>

lemma startsWith_iff: "startsWith xs d \<longleftrightarrow> (\<exists>r. xs = d @ r)"
  by (induction xs d rule: startsWith.induct) auto

lemma includes_list_iff: "includes_list xs d \<longleftrightarrow> (\<exists>p r. xs = p @ d @ r)"
proof (induction xs)
  case Nil
  show ?case by (simp add: startsWith_iff)
next
  case (Cons x xs)
  show ?case
  proof
    assume "includes_list (x # xs) d"
    then consider "startsWith (x # xs) d" | "includes_list xs d" by auto
    then show "\<exists>p r. x # xs = p @ d @ r"
    proof cases
      case 1
      then obtain r where "x # xs = d @ r" by (auto simp: startsWith_iff)
      then have "x # xs = [] @ d @ r" by simp
      then show ?thesis by blast
    next
      case 2
      with Cons.IH obtain p r where "xs = p @ d @ r" by blast
      then have "x # xs = (x # p) @ d @ r" by simp
      then show ?thesis by blast
    qed
  next
    assume "\<exists>p r. x # xs = p @ d @ r"
    then obtain p r where eq: "x # xs = p @ d @ r" by blast
    show "includes_list (x # xs) d"
    proof (cases p)
      case Nil
      with eq have "startsWith (x # xs) d" by (auto simp: startsWith_iff)
      then show ?thesis by simp
    next
      case (Cons y p')
      with eq have "xs = p' @ d @ r" by simp
      with Cons.IH have "includes_list xs d" by blast
      then show ?thesis by simp
    qed
  qed
qed

lemma includes_space_iff: "includes_list a '' '' \<longleftrightarrow> CHR '' '' \<in> set a"
  by (induction a) auto

lemma endsWith_iff: "endsWith s suf \<longleftrightarrow> (\<exists>p. s = p @ suf)"
proof
  assume "endsWith s suf"
  then have "s = take (length s - length suf) s @ suf"
    by (metis append_take_drop_id endsWith_def)
  then show "\<exists>p. s = p @ suf" ..
next
  assume "\<exists>p. s = p @ suf"
  then show "endsWith s suf" by (auto simp: endsWith_def)
qed

section \<open>Facts about the quoting loop\<close>



lemma powershell_no_space: "\<not> includes_list ''powershell.exe'' '' ''"
  by (simp add: includes_space_iff)

section \<open>Facts about the decimal text of a number\<close>

lemma digit_table:
  assumes "d < 10"
  shows "of_char (''0123456789'' ! d) = (48 + d :: nat)
         \<and> ''0123456789'' ! d \<in> set ''0123456789''
         \<and> (d \<noteq> 0 \<longrightarrow> ''0123456789'' ! d \<noteq> CHR ''0'')"
proof -
  from assms have "d \<in> {0, 1, 2, 3, 4, 5, 6, 7, 8, 9}" by auto
  then show ?thesis by auto
qed

lemma decimal_small: "n < 10 \<Longrightarrow> decimal n = [''0123456789'' ! n]"
  by (subst decimal.simps) simp

lemma decimal_large:
  "\<not> n < 10 \<Longrightarrow> decimal n = decimal (n div 10) @ [''0123456789'' ! (n mod 10)]"
  by (subst decimal.simps) simp

lemma decimalValue_snoc:
  "decimalValue (t @ [ch]) = 10 * decimalValue t + (of_char ch - 48)"
  by (simp add: decimalValue_def)

lemma decimal_not_Nil: "decimal n \<noteq> []"
  by (cases "n < 10") (simp_all only: decimal_small decimal_large, simp_all)

lemma decimal_value: "decimalValue (decimal n) = n"
proof (induction n rule: decimal.induct)
  case (1 n)
  show ?case
  proof (cases "n < 10")
    case True
    with digit_table [OF True] show ?thesis
      by (simp only: decimal_small decimalValue_def) simp
  next
    case False
    have m: "n mod 10 < 10" by simp
    from 1 [OF False] digit_table [OF m] show ?thesis
      by (simp only: decimal_large [OF False] decimalValue_snoc) simp
  qed
qed

lemma decimal_digits: "set (decimal n) \<subseteq> set ''0123456789''"
proof (induction n rule: decimal.induct)
  case (1 n)
  show ?case
  proof (cases "n < 10")
    case True
    with digit_table [OF True] show ?thesis
      by (simp only: decimal_small) simp
  next
    case False
    have m: "n mod 10 < 10" by simp
    from 1 [OF False] digit_table [OF m] show ?thesis
      by (simp only: decimal_large [OF False]) simp
  qed
qed

lemma decimal_leading: "0 < n \<Longrightarrow> hd (decimal n) \<noteq> CHR ''0''"
proof (induction n rule: decimal.induct)
  case (1 n)
  show ?case
  proof (cases "n < 10")
    case True
    with digit_table [OF True] "1.prems" show ?thesis
      by (simp only: decimal_small) simp
  next
    case False
    then have p: "0 < n div 10" by simp
    from 1(1) [OF False p] decimal_not_Nil [of "n div 10"] show ?thesis
      by (simp only: decimal_large [OF False] hd_append) simp
  qed
qed

lemma numberToString_positive:
  assumes "0 < c"
  shows "int (decimalValue (numberToString c)) = c
         \<and> set (numberToString c) \<subseteq> set ''0123456789''
         \<and> hd (numberToString c) \<noteq> CHR ''0''"
proof -
  from assms have n: "0 < nat c" by simp
  from assms have e: "numberToString c = decimal (nat c)"
    by (simp only: numberToString_def) simp
  from assms decimal_value [of "nat c"] decimal_digits [of "nat c"] decimal_leading [OF n]
  show ?thesis by (simp only: e) simp
qed


lemma digit_char:
  assumes "ch \<in> set ''0123456789''"
  shows "of_char ch - 48 < (10::nat) \<and> ''0123456789'' ! (of_char ch - 48) = ch
         \<and> (ch \<noteq> CHR ''0'' \<longrightarrow> 0 < (of_char ch - 48 :: nat))"
  using assms by auto

lemma decimal_unique:
  assumes "t \<noteq> []" and "set t \<subseteq> set ''0123456789''" and "hd t \<noteq> CHR ''0''"
  shows "t = decimal (decimalValue t) \<and> 0 < decimalValue t"
  using assms
proof (induction t rule: rev_induct)
  case Nil
  then show ?case by simp
next
  case (snoc ch ys)
  from snoc.prems(2) have c: "ch \<in> set ''0123456789''" by simp
  note dc = digit_char [OF c]
  show ?case
  proof (cases "ys = []")
    case True
    with snoc.prems(3) have nz: "ch \<noteq> CHR ''0''" by simp
    from True have v: "decimalValue (ys @ [ch]) = of_char ch - 48"
      by (simp add: decimalValue_def)
    from dc have sm: "decimal (of_char ch - 48) = [''0123456789'' ! (of_char ch - 48)]"
      by (simp only: decimal_small)
    from dc nz sm have "decimal (of_char ch - 48) = [ch]" "0 < (of_char ch - 48 :: nat)"
      by simp_all
    with v True show ?thesis by (simp only:) simp
  next
    case False
    with snoc.prems have "set ys \<subseteq> set ''0123456789''" "hd ys \<noteq> CHR ''0''"
      by simp_all
    from snoc.IH [OF False this]
    have ih: "ys = decimal (decimalValue ys)" and pos: "0 < decimalValue ys" by simp_all
    let ?v = "10 * decimalValue ys + (of_char ch - 48)"
    from pos have big: "\<not> ?v < 10" by simp
    from dc have dv: "?v div 10 = decimalValue ys" and md: "?v mod 10 = of_char ch - 48"
      by simp_all
    from dc have "decimal ?v = decimal (decimalValue ys) @ [ch]"
      by (simp only: decimal_large [OF big] dv md)
    with ih have "decimal ?v = ys @ [ch]" by simp
    with pos show ?thesis by (simp only: decimalValue_snoc) simp
  qed
qed

section \<open>Facts about the discard router\<close>

lemma emit_handlers:
  "error_listeners (child (emit ts s ev)) = error_listeners (child s)
   \<and> exit_listeners (child (emit ts s ev)) = exit_listeners (child s)"
  by (cases ev)
     (auto simp: errLineReader_def errorHandler_def exitHandler_def dumpFilter_def Let_def
           split: option.splits)

lemma emits_handlers:
  "error_listeners (child (emits ts s evs)) = error_listeners (child s)
   \<and> exit_listeners (child (emits ts s evs)) = exit_listeners (child s)"
  by (induction evs arbitrary: s) (simp_all add: emit_handlers)

lemma emit_buffering:
  assumes "preLaunchBuffer s = Some bufs"
    and "ErrLineReader \<in> set (stderr_data (child s))"
    and "\<forall>d \<in> set (stderrChunks [ev]). \<not> includes_list d delimiter"
  shows "preLaunchBuffer (emit ts s ev) = Some (bufs @ stderrChunks [ev])
         \<and> child (emit ts s ev) = child s"
  using assms
  by (cases ev)
     (auto simp: errLineReader_def errorHandler_def exitHandler_def dumpFilter_def Let_def
           split: option.splits)

lemma stderrChunks_Cons: "stderrChunks (ev # evs) = stderrChunks [ev] @ stderrChunks evs"
  by (cases ev) simp_all

lemma emits_buffering:
  assumes "preLaunchBuffer s = Some bufs"
    and "ErrLineReader \<in> set (stderr_data (child s))"
    and "\<forall>d \<in> set (stderrChunks evs). \<not> includes_list d delimiter"
  shows "preLaunchBuffer (emits ts s evs) = Some (bufs @ stderrChunks evs)
         \<and> child (emits ts s evs) = child s"
  using assms
proof (induction evs arbitrary: s bufs)
  case Nil
  then show ?case by simp
next
  case (Cons ev evs)
  have one: "\<forall>d \<in> set (stderrChunks [ev]). \<not> includes_list d delimiter"
    and rest: "\<forall>d \<in> set (stderrChunks evs). \<not> includes_list d delimiter"
    using Cons.prems(3) stderrChunks_Cons [of ev evs] by auto
  from emit_buffering [OF Cons.prems(1) Cons.prems(2) one, of ts]
  have b: "preLaunchBuffer (emit ts s ev) = Some (bufs @ stderrChunks [ev])"
    and c: "child (emit ts s ev) = child s" by simp_all
  from c Cons.prems(2) have l: "ErrLineReader \<in> set (stderr_data (child (emit ts s ev)))"
    by simp
  from Cons.IH [OF b l rest] c show ?case
    using stderrChunks_Cons [of ev evs] by simp
qed

lemma dumpFilter_discarded: "preLaunchBuffer s = None \<Longrightarrow> dumpFilter ts s = s"
  by (simp add: dumpFilter_def)

lemma emit_discarded:
  assumes "preLaunchBuffer s = None"
    and "ErrorHandler \<in> set (error_listeners (child s))"
    and "ExitHandler \<in> set (exit_listeners (child s))"
  shows "preLaunchBuffer (emit ts s ev) = None
         \<and> dap (emit ts s ev) = dap s @ reportOnly ev
         \<and> set (stderr_data (child (emit ts s ev))) \<subseteq> set (stderr_data (child s))"
proof (cases ev)
  case (StderrData d)
  have "set (removeListener ErrLineReader (stderr_data (child s))) \<subseteq> set (stderr_data (child s))"
    by (metis removeListener_def set_remove1_subset set_rev)
  with assms StderrData show ?thesis
    by (auto simp: errLineReader_def)
next
  case (StdoutData d)
  with assms show ?thesis by simp
next
  case (ErrorEvent err)
  with assms show ?thesis
    by (simp add: errorHandler_def dumpFilter_def dap_output_def)
next
  case (ExitEvent code)
  with assms show ?thesis
    by (cases code) (simp_all add: exitHandler_def dumpFilter_def dap_output_def)
qed

lemma emits_discarded:
  assumes "preLaunchBuffer s = None"
    and "ErrorHandler \<in> set (error_listeners (child s))"
    and "ExitHandler \<in> set (exit_listeners (child s))"
  shows "preLaunchBuffer (emits ts s evs) = None
         \<and> dap (emits ts s evs) = dap s @ concat (map reportOnly evs)
         \<and> set (stderr_data (child (emits ts s evs))) \<subseteq> set (stderr_data (child s))"
  using assms
proof (induction evs arbitrary: s)
  case Nil
  then show ?case by simp
next
  case (Cons ev evs)
  note step = emit_discarded [OF Cons.prems, of ts ev]
  have h: "ErrorHandler \<in> set (error_listeners (child (emit ts s ev)))"
    "ExitHandler \<in> set (exit_listeners (child (emit ts s ev)))"
    using Cons.prems by (simp_all add: emit_handlers)
  from step have n: "preLaunchBuffer (emit ts s ev) = None" by simp
  from Cons.IH [OF n h] step show ?case by auto
qed

lemma discardStdio_spawn:
  "preLaunchBuffer (discardStdio dap0 (spawn f a sh cw)) = Some []
   \<and> stderr_data (child (discardStdio dap0 (spawn f a sh cw))) = [ErrLineReader]
   \<and> error_listeners (child (discardStdio dap0 (spawn f a sh cw))) = [ErrorHandler]
   \<and> exit_listeners (child (discardStdio dap0 (spawn f a sh cw))) = [ExitHandler]
   \<and> stdout_data (child (discardStdio dap0 (spawn f a sh cw))) = []
   \<and> dap (discardStdio dap0 (spawn f a sh cw)) = dap0"
  by (simp add: discardStdio_def spawn_def on_def)

lemma errLineReader_marker:
  assumes "includes_list m delimiter"
  shows "preLaunchBuffer (errLineReader m s) = None
         \<and> dap (errLineReader m s) = dap s
         \<and> stderr_data (child (errLineReader m s)) =
             removeListener ErrLineReader (stderr_data (child s))
         \<and> error_listeners (child (errLineReader m s)) = error_listeners (child s)
         \<and> exit_listeners (child (errLineReader m s)) = exit_listeners (child s)"
  using assms by (simp add: errLineReader_def)

lemma marker_chunk_steps:
  assumes "\<forall>d \<in> set (stderrChunks pre). \<not> includes_list d delimiter"
    and "includes_list m delimiter"
    and "s1 = emits toString (discardStdio dap0 (spawn f a sh cw)) pre"
    and "s2 = emit toString s1 (StderrData m)"
    and "s3 = emits toString s2 post"
  shows "preLaunchBuffer s1 = Some (stderrChunks pre)
         \<and> ErrLineReader \<in> set (stderr_data (child s1))
         \<and> preLaunchBuffer s2 = None
         \<and> ErrLineReader \<notin> set (stderr_data (child s2))
         \<and> dap s2 = dap s1
         \<and> preLaunchBuffer s3 = None
         \<and> ErrLineReader \<notin> set (stderr_data (child s3))
         \<and> dap s3 = dap s1 @ concat (map reportOnly post)"
proof -
  let ?s0 = "discardStdio dap0 (spawn f a sh cw)"
  note init = discardStdio_spawn [of dap0 f a sh cw]
  have b0: "preLaunchBuffer ?s0 = Some []"
    and l0: "ErrLineReader \<in> set (stderr_data (child ?s0))"
    using init by simp_all
  from emits_buffering [OF b0 l0 assms(1), of toString] assms(3)
  have b1: "preLaunchBuffer s1 = Some (stderrChunks pre)"
    and c1: "child s1 = child ?s0" by simp_all
  from c1 init have l1: "stderr_data (child s1) = [ErrLineReader]"
    and e1: "error_listeners (child s1) = [ErrorHandler]"
    and x1: "exit_listeners (child s1) = [ExitHandler]" by simp_all
  from l1 assms(4) have s2: "s2 = errLineReader m s1" by simp
  note mk = errLineReader_marker [OF assms(2), of s1]
  from mk s2 have b2: "preLaunchBuffer s2 = None" and d2: "dap s2 = dap s1" by simp_all
  from mk s2 l1 have l2: "stderr_data (child s2) = []"
    by (simp add: removeListener_def)
  from mk s2 e1 x1 have h2: "ErrorHandler \<in> set (error_listeners (child s2))"
    "ExitHandler \<in> set (exit_listeners (child s2))" by simp_all
  from emits_discarded [OF b2 h2, of toString post] assms(5) l2 d2
  have "preLaunchBuffer s3 = None" "dap s3 = dap s1 @ concat (map reportOnly post)"
    "ErrLineReader \<notin> set (stderr_data (child s3))" by auto
  with b1 l1 b2 l2 d2 show ?thesis by simp
qed

lemma reachable_handlers:
  "ErrorHandler \<in> set (error_listeners (child (emits ts (discardStdio dap0 child0) evs)))
   \<and> ExitHandler \<in> set (exit_listeners (child (emits ts (discardStdio dap0 child0) evs)))"
  by (simp add: emits_handlers discardStdio_def on_def)

section \<open>The capability gate\<close>

text \<open>
  Claim C9.  \<open>canLaunch\<close> is true exactly when the console mode of the configuration
  is \<open>internalConsole\<close>.  It is a function of the configuration alone.
\<close>

theorem canLaunch_iff:
  "canLaunch config \<longleftrightarrow> console config = ''internalConsole''"
  by (simp add: canLaunch_def)

theorem canLaunch_iff_witness:
  "canLaunch \<lparr>console = ''internalConsole'', config_cwd = ''/w'', outputCapture = Console\<rparr>
   \<and> \<not> canLaunch \<lparr>console = ''integratedTerminal'', config_cwd = ''/w'', outputCapture = Console\<rparr>
   \<and> \<not> canLaunch \<lparr>console = ''externalTerminal'', config_cwd = ''/w'', outputCapture = Capture\<rparr>"
  using canLaunch_iff [of "\<lparr>console = ''internalConsole'', config_cwd = ''/w'', outputCapture = Console\<rparr>"]
    canLaunch_iff [of "\<lparr>console = ''integratedTerminal'', config_cwd = ''/w'', outputCapture = Console\<rparr>"]
    canLaunch_iff [of "\<lparr>console = ''externalTerminal'', config_cwd = ''/w'', outputCapture = Capture\<rparr>"]
  by simp

section \<open>The argument normalizer\<close>

text \<open>
  Claim C8.  On a platform other than \<open>win32\<close> the executable, the arguments and
  the working directory are returned as given, and \<open>shell\<close> is false.
\<close>

theorem formatArguments_not_win32:
  assumes "platform \<noteq> ''win32''"
  shows "formatArguments pc platform exe as cw =
           \<lparr>executable = exe, args = as, shell = False, cwd = cw\<rparr>"
  using assms by (simp add: formatArguments_def win32Rewrite_def)

theorem formatArguments_not_win32_witness:
  "formatArguments (\<lambda>p. ''X'' @ p) ''linux'' ''/opt/my app/run.ps1'' [''a b'', ''c'']
     ''/home/u x'' =
     \<lparr>executable = ''/opt/my app/run.ps1'', args = [''a b'', ''c''], shell = False,
      cwd = ''/home/u x''\<rparr>"
proof -
  have h: "''linux'' \<noteq> ''win32''" by simp
  from formatArguments_not_win32
         [of "''linux''" "\<lambda>p. ''X'' @ p" "''/opt/my app/run.ps1''" "[''a b'', ''c'']"
             "''/home/u x''"] h
  show ?thesis by simp
qed

text \<open>
  Claim C7.  On Windows, when the executable path (in its preferred case, as line 124
  leaves it) ends in \<open>.ps1\<close>, the result has the executable \<open>powershell.exe\<close>
  and the arguments \<open>-File\<close>, that path, and then the arguments given, in their
  order; \<open>shell\<close> is false.
\<close>

theorem formatArguments_ps1:
  assumes "platform = ''win32''"
    and "endsWith (pc exe) ''.ps1''"
  shows "formatArguments pc platform exe as cw =
           \<lparr>executable = ''powershell.exe'', args = [''-File'', pc exe] @ as,
            shell = False, cwd = pc cw\<rparr>"
  using assms powershell_no_space
  by (simp add: formatArguments_def win32Rewrite_def)

theorem formatArguments_ps1_witness:
  "endsWith (''C:'' @ CHR 0x5C # ''my scripts'' @ CHR 0x5C # ''run.ps1'') ''.ps1''
   \<and> formatArguments (\<lambda>p. CHR ''C'' # tl p) ''win32''
         (''c:'' @ CHR 0x5C # ''my scripts'' @ CHR 0x5C # ''run.ps1'')
         [''--inspect'', ''a b''] ''c:'' =
       \<lparr>executable = ''powershell.exe'',
        args = [''-File'', ''C:'' @ CHR 0x5C # ''my scripts'' @ CHR 0x5C # ''run.ps1'',
                ''--inspect'', ''a b''],
        shell = False, cwd = ''C:''\<rparr>"
proof -
  let ?exe = "''c:'' @ CHR 0x5C # ''my scripts'' @ CHR 0x5C # ''run.ps1''"
  have h: "endsWith (''C:'' @ CHR 0x5C # ''my scripts'' @ CHR 0x5C # ''run.ps1'') ''.ps1''"
    by (simp add: endsWith_def)
  from formatArguments_ps1
         [of "''win32''" "\<lambda>p. CHR ''C'' # tl p" ?exe "[''--inspect'', ''a b'']" "''c:''"] h
  show ?thesis by simp
qed



section \<open>The launcher attaches one router\<close>

text \<open>
  Claim C3.  After \<open>launchProgram\<close> the spawned child carries the listeners of
  exactly one router: those of the discard router when \<open>outputCapture\<close> is
  \<open>Console\<close>, those of the capture router otherwise; in either case no listener of
  the other router is registered.
\<close>

theorem exactly_one_router:
  "let c = launched_child
             (launchProgram getNodeLaunchArgs pc platform dap0 binary config)
   in (discardAttached c \<longleftrightarrow> outputCapture config = Console)
      \<and> (captureAttached c \<longleftrightarrow> outputCapture config \<noteq> Console)
      \<and> (captureAttached c \<longleftrightarrow> \<not> discardAttached c)
      \<and> (outputCapture config = Console \<longrightarrow>
            stdout_data c = [] \<and> stderr_data c = [ErrLineReader]
            \<and> error_listeners c = [ErrorHandler] \<and> exit_listeners c = [ExitHandler])
      \<and> (outputCapture config \<noteq> Console \<longrightarrow>
            stdout_data c = [StdOutTracker] \<and> stderr_data c = [StdErrTracker]
            \<and> error_listeners c = [] \<and> exit_listeners c = [])"
  by (simp add: launchProgram_def Let_def discardStdio_def captureStdio_def spawn_def on_def
        captureAttached_def discardAttached_def)

theorem exactly_one_router_witness:
  "discardAttached
     (launched_child
        (launchProgram (\<lambda>c. [''app.js'']) (\<lambda>p. p) ''linux'' [] ''node''
           \<lparr>console = ''internalConsole'', config_cwd = ''/w'', outputCapture = Console\<rparr>))
   \<and> \<not> captureAttached
     (launched_child
        (launchProgram (\<lambda>c. [''app.js'']) (\<lambda>p. p) ''linux'' [] ''node''
           \<lparr>console = ''internalConsole'', config_cwd = ''/w'', outputCapture = Console\<rparr>))
   \<and> captureAttached
     (launched_child
        (launchProgram (\<lambda>c. [''app.js'']) (\<lambda>p. p) ''linux'' [] ''node''
           \<lparr>console = ''internalConsole'', config_cwd = ''/w'', outputCapture = Capture\<rparr>))
   \<and> \<not> discardAttached
     (launched_child
        (launchProgram (\<lambda>c. [''app.js'']) (\<lambda>p. p) ''linux'' [] ''node''
           \<lparr>console = ''internalConsole'', config_cwd = ''/w'', outputCapture = Capture\<rparr>))"
  using exactly_one_router
          [of "\<lambda>c. [''app.js'']" "\<lambda>p. p" "''linux''" "[]" "''node''"
              "\<lparr>console = ''internalConsole'', config_cwd = ''/w'', outputCapture = Console\<rparr>"]
        exactly_one_router
          [of "\<lambda>c. [''app.js'']" "\<lambda>p. p" "''linux''" "[]" "''node''"
              "\<lparr>console = ''internalConsole'', config_cwd = ''/w'', outputCapture = Capture\<rparr>"]
  by (simp add: Let_def)

section \<open>The discard router\<close>

text \<open>
  Claim C2.  Start the discard router on a freshly spawned child and deliver any events
  \<open>pre\<close> none of whose \<open>stderr\<close> chunks contains the marker, then a chunk \<open>m\<close>
  that contains \<open>Debugger attached.\<close>, then any events \<open>post\<close>.  Before \<open>m\<close>
  the router is buffering (it holds the chunks of \<open>pre\<close>) and listening.  On \<open>m\<close>
  the buffer becomes absent, \<open>errLineReader\<close> is removed from the \<open>stderr\<close>
  listeners and nothing is sent to the sink.  Whatever comes after, the buffer stays
  absent, the listener stays removed, and the sink only receives the error texts and
  exit-code reports of \<open>post\<close>: neither \<open>m\<close> nor a later chunk is ever flushed.
\<close>

theorem marker_chunk_discards:
  assumes "\<forall>d \<in> set (stderrChunks pre). \<not> includes_list d delimiter"
    and "includes_list m delimiter"
  shows "let s1 = emits toString (discardStdio dap0 (spawn f a sh cw)) pre;
             s2 = emit toString s1 (StderrData m);
             s3 = emits toString s2 post
         in preLaunchBuffer s1 = Some (stderrChunks pre)
            \<and> ErrLineReader \<in> set (stderr_data (child s1))
            \<and> preLaunchBuffer s2 = None
            \<and> ErrLineReader \<notin> set (stderr_data (child s2))
            \<and> dap s2 = dap s1
            \<and> preLaunchBuffer s3 = None
            \<and> ErrLineReader \<notin> set (stderr_data (child s3))
            \<and> dap s3 = dap s1 @ concat (map reportOnly post)"
  unfolding Let_def
  by (rule marker_chunk_steps [OF assms refl refl refl])

theorem marker_chunk_discards_witness:
  "\<not> includes_list ''starting...'' delimiter
   \<and> includes_list ''Debugger attached.'' delimiter
   \<and> preLaunchBuffer
        (emits (\<lambda>b. b) (discardStdio [] (spawn ''node'' [''app.js''] False ''/w''))
           [StderrData ''starting...'', ErrorEvent \<lparr>stack = None, message = ''boom''\<rparr>])
       = Some [''starting...'']
   \<and> preLaunchBuffer
        (emits (\<lambda>b. b) (discardStdio [] (spawn ''node'' [''app.js''] False ''/w''))
           [StderrData ''starting...'', ErrorEvent \<lparr>stack = None, message = ''boom''\<rparr>,
            StderrData ''Debugger attached.'', StderrData ''late noise'',
            ExitEvent (Some 1)])
       = None
   \<and> dap
        (emits (\<lambda>b. b) (discardStdio [] (spawn ''node'' [''app.js''] False ''/w''))
           [StderrData ''starting...'', ErrorEvent \<lparr>stack = None, message = ''boom''\<rparr>,
            StderrData ''Debugger attached.'', StderrData ''late noise'',
            ExitEvent (Some 1)])
       = [\<lparr>category = ''stderr'', output_text = ''starting...''\<rparr>,
          \<lparr>category = ''stderr'', output_text = ''boom''\<rparr>,
          \<lparr>category = ''stderr'',
           output_text = ''Process exited with code 1'' @ [CHR 0x0D, CHR 0x0A]\<rparr>]"
proof -
  let ?pre = "[StderrData ''starting...'', ErrorEvent \<lparr>stack = None, message = ''boom''\<rparr>]"
  have h1: "\<forall>d \<in> set (stderrChunks ?pre). \<not> includes_list d delimiter"
    by (simp add: delimiter_def)
  have h2: "includes_list ''Debugger attached.'' delimiter"
    by (simp add: delimiter_def)
  from marker_chunk_discards
         [OF h1 h2, of "\<lambda>b. b" "[]" "''node''" "[''app.js'']" False "''/w''"
            "[StderrData ''late noise'', ExitEvent (Some 1)]"]
       h1 h2
  show ?thesis
    by (simp add: Let_def discardStdio_def spawn_def on_def errLineReader_def
          removeListener_def errorHandler_def exitHandler_def dumpFilter_def dap_output_def
          stack_or_message_def numberToString_def)
qed

text \<open>
  Claim C10.  The marker is looked for in each chunk on its own: when the router is
  buffering and two consecutive chunks arrive neither of which contains the marker,
  both are appended to the buffer and nothing else changes, also when the two chunks
  put together do contain the marker.
\<close>

theorem split_marker_not_detected:
  assumes "preLaunchBuffer s = Some bufs"
    and "ErrLineReader \<in> set (stderr_data (child s))"
    and "\<not> includes_list a delimiter"
    and "\<not> includes_list b delimiter"
    and "includes_list (a @ b) delimiter"
  shows "emits toString s [StderrData a, StderrData b] =
           s\<lparr>preLaunchBuffer := Some (bufs @ [a, b])\<rparr>"
  using assms by (simp add: errLineReader_def)

theorem split_marker_not_detected_witness:
  "\<not> includes_list ''Debugger att'' delimiter
   \<and> \<not> includes_list ''ached.'' delimiter
   \<and> includes_list (''Debugger att'' @ ''ached.'') delimiter
   \<and> emits (\<lambda>b. b) (discardStdio [] (spawn ''node'' [''app.js''] False ''/w''))
        [StderrData ''Debugger att'', StderrData ''ached.'']
     = (discardStdio [] (spawn ''node'' [''app.js''] False ''/w''))
         \<lparr>preLaunchBuffer := Some [''Debugger att'', ''ached.'']\<rparr>"
proof -
  let ?s0 = "discardStdio [] (spawn ''node'' [''app.js''] False ''/w'')"
  have b: "preLaunchBuffer ?s0 = Some []"
    and l: "ErrLineReader \<in> set (stderr_data (child ?s0))"
    by (simp_all add: discardStdio_def spawn_def on_def)
  have na: "\<not> includes_list ''Debugger att'' delimiter"
    and nb: "\<not> includes_list ''ached.'' delimiter"
    and ab: "includes_list (''Debugger att'' @ ''ached.'') delimiter"
    by (simp_all add: delimiter_def)
  from split_marker_not_detected [OF b l na nb ab, of "\<lambda>b. b"] na nb ab
  show ?thesis by simp
qed



text \<open>
  Claim C5.  On an \<open>exit\<close> event with a code that is not null and greater than
  zero the discard router flushes the buffer if it is still present and then sends a
  \<open>stderr\<close> event with the text \<open>Process exited with code\<close>, the code and a
  line break; with the code null, zero or negative the state and the sink are left as
  they were.  The code is printed as its decimal numeral: the printed text consists of
  decimal digits, does not start with a zero and denotes the code, and it is the only
  such text.
\<close>

theorem exit_event_report:
  assumes "ExitHandler \<in> set (exit_listeners (child s))"
  shows "emit toString s (ExitEvent code) =
           (case code of
              None \<Rightarrow> s
            | Some c \<Rightarrow>
                if c > 0
                then (case preLaunchBuffer s of
                        Some bufs \<Rightarrow>
                          s\<lparr>dap := dap s @
                               [\<lparr>category = ''stderr'',
                                 output_text = toString (concat bufs)\<rparr>,
                                \<lparr>category = ''stderr'',
                                 output_text = ''Process exited with code ''
                                   @ numberToString c @ [CHR 0x0D, CHR 0x0A]\<rparr>]\<rparr>
                      | None \<Rightarrow>
                          s\<lparr>dap := dap s @
                               [\<lparr>category = ''stderr'',
                                 output_text = ''Process exited with code ''
                                   @ numberToString c @ [CHR 0x0D, CHR 0x0A]\<rparr>]\<rparr>)
                else s)
         \<and> (\<forall>c. code = Some c \<and> 0 < c \<longrightarrow>
                int (decimalValue (numberToString c)) = c
                \<and> set (numberToString c) \<subseteq> set ''0123456789''
                \<and> hd (numberToString c) \<noteq> CHR ''0''
                \<and> (\<forall>t. t \<noteq> [] \<and> set t \<subseteq> set ''0123456789'' \<and> hd t \<noteq> CHR ''0''
                          \<and> int (decimalValue t) = c \<longrightarrow> t = numberToString c))"
proof -
  have state: "emit toString s (ExitEvent code) =
           (case code of
              None \<Rightarrow> s
            | Some c \<Rightarrow>
                if c > 0
                then (case preLaunchBuffer s of
                        Some bufs \<Rightarrow>
                          s\<lparr>dap := dap s @
                               [\<lparr>category = ''stderr'',
                                 output_text = toString (concat bufs)\<rparr>,
                                \<lparr>category = ''stderr'',
                                 output_text = ''Process exited with code ''
                                   @ numberToString c @ [CHR 0x0D, CHR 0x0A]\<rparr>]\<rparr>
                      | None \<Rightarrow>
                          s\<lparr>dap := dap s @
                               [\<lparr>category = ''stderr'',
                                 output_text = ''Process exited with code ''
                                   @ numberToString c @ [CHR 0x0D, CHR 0x0A]\<rparr>]\<rparr>)
                else s)"
    using assms
    by (simp add: exitHandler_def dumpFilter_def dap_output_def split: option.splits)
  have numeral: "int (decimalValue (numberToString c)) = c
                \<and> set (numberToString c) \<subseteq> set ''0123456789''
                \<and> hd (numberToString c) \<noteq> CHR ''0''
                \<and> (\<forall>t. t \<noteq> [] \<and> set t \<subseteq> set ''0123456789'' \<and> hd t \<noteq> CHR ''0''
                          \<and> int (decimalValue t) = c \<longrightarrow> t = numberToString c)"
    if pos: "0 < c" for c
  proof -
    from pos have e: "numberToString c = decimal (nat c)"
      by (simp only: numberToString_def) simp
    have "t = numberToString c"
      if t: "t \<noteq> [] \<and> set t \<subseteq> set ''0123456789'' \<and> hd t \<noteq> CHR ''0''
             \<and> int (decimalValue t) = c" for t
    proof -
      from t have "t = decimal (decimalValue t)" using decimal_unique [of t] by simp
      moreover from t have "decimalValue t = nat c" by auto
      ultimately show ?thesis using e by simp
    qed
    with numberToString_positive [OF pos] show ?thesis by blast
  qed
  from state numeral show ?thesis by blast
qed

theorem exit_event_report_witness:
  "dap (emit (\<lambda>b. b)
          (emits (\<lambda>b. b) (discardStdio [] (spawn ''node'' [''app.js''] False ''/w''))
             [StderrData ''oops''])
          (ExitEvent (Some 1)))
     = [\<lparr>category = ''stderr'', output_text = ''oops''\<rparr>,
        \<lparr>category = ''stderr'',
         output_text = ''Process exited with code 1'' @ [CHR 0x0D, CHR 0x0A]\<rparr>]
   \<and> dap (emit (\<lambda>b. b)
          (emits (\<lambda>b. b) (discardStdio [] (spawn ''node'' [''app.js''] False ''/w''))
             [StderrData ''oops''])
          (ExitEvent (Some 137)))
     = [\<lparr>category = ''stderr'', output_text = ''oops''\<rparr>,
        \<lparr>category = ''stderr'',
         output_text = ''Process exited with code 137'' @ [CHR 0x0D, CHR 0x0A]\<rparr>]
   \<and> dap (emit (\<lambda>b. b)
          (emits (\<lambda>b. b) (discardStdio [] (spawn ''node'' [''app.js''] False ''/w''))
             [StderrData ''oops'', StderrData ''Debugger attached.''])
          (ExitEvent (Some 3221225477)))
     = [\<lparr>category = ''stderr'',
         output_text = ''Process exited with code 3221225477'' @ [CHR 0x0D, CHR 0x0A]\<rparr>]
   \<and> int (decimalValue (numberToString 3221225477)) = 3221225477
   \<and> dap (emit (\<lambda>b. b)
          (emits (\<lambda>b. b) (discardStdio [] (spawn ''node'' [''app.js''] False ''/w''))
             [StderrData ''oops''])
          (ExitEvent (Some 0)))
     = []
   \<and> dap (emit (\<lambda>b. b)
          (emits (\<lambda>b. b) (discardStdio [] (spawn ''node'' [''app.js''] False ''/w''))
             [StderrData ''oops''])
          (ExitEvent None))
     = []
   \<and> dap (emit (\<lambda>b. b)
          (emits (\<lambda>b. b) (discardStdio [] (spawn ''node'' [''app.js''] False ''/w''))
             [StderrData ''oops''])
          (ExitEvent (Some (- 2))))
     = []"
proof -
  let ?s0 = "discardStdio [] (spawn ''node'' [''app.js''] False ''/w'')"
  let ?s = "emits (\<lambda>b. b) ?s0 [StderrData ''oops'']"
  let ?d = "emits (\<lambda>b. b) ?s0 [StderrData ''oops'', StderrData ''Debugger attached.'']"
  have h: "ExitHandler \<in> set (exit_listeners (child ?s))"
    and hm: "ExitHandler \<in> set (exit_listeners (child ?d))"
    by (simp_all add: discardStdio_def spawn_def on_def errLineReader_def delimiter_def)
  from exit_event_report [OF h, of "\<lambda>b. b" "Some 1"]
       exit_event_report [OF h, of "\<lambda>b. b" "Some 137"]
       exit_event_report [OF hm, of "\<lambda>b. b" "Some 3221225477"]
       exit_event_report [OF h, of "\<lambda>b. b" "Some 0"]
       exit_event_report [OF h, of "\<lambda>b. b" None]
       exit_event_report [OF h, of "\<lambda>b. b" "Some (- 2)"]
  show ?thesis
    by (simp add: discardStdio_def spawn_def on_def errLineReader_def delimiter_def
          numberToString_def)
qed

text \<open>
  Claim C6.  Once the buffer is absent, \<open>dumpFilter\<close> does nothing, the buffer
  stays absent through every further sequence of events, and the sink receives from
  those events only the error texts and exit-code reports, never buffered content.
\<close>

theorem discarded_never_flushes:
  assumes "preLaunchBuffer s = None"
    and "ErrorHandler \<in> set (error_listeners (child s))"
    and "ExitHandler \<in> set (exit_listeners (child s))"
  shows "dumpFilter toString s = s
         \<and> preLaunchBuffer (emits toString s evs) = None
         \<and> dap (emits toString s evs) = dap s @ concat (map reportOnly evs)"
  using emits_discarded [OF assms, of toString evs] dumpFilter_discarded [OF assms(1), of toString]
  by simp

theorem discarded_never_flushes_witness:
  "preLaunchBuffer
     (emits (\<lambda>b. b) (discardStdio [] (spawn ''node'' [''app.js''] False ''/w''))
        [StderrData ''early'', StderrData ''Debugger attached.'']) = None
   \<and> dap
       (emits (\<lambda>b. b)
          (emits (\<lambda>b. b) (discardStdio [] (spawn ''node'' [''app.js''] False ''/w''))
             [StderrData ''early'', StderrData ''Debugger attached.''])
          [ErrorEvent \<lparr>stack = None, message = ''boom''\<rparr>, ExitEvent (Some 2)])
     = [\<lparr>category = ''stderr'', output_text = ''boom''\<rparr>,
        \<lparr>category = ''stderr'',
         output_text = ''Process exited with code 2'' @ [CHR 0x0D, CHR 0x0A]\<rparr>]"
proof -
  let ?s0 = "discardStdio [] (spawn ''node'' [''app.js''] False ''/w'')"
  let ?s = "emits (\<lambda>b. b) ?s0 [StderrData ''early'', StderrData ''Debugger attached.'']"
  have n: "preLaunchBuffer ?s = None"
    by (simp add: discardStdio_def spawn_def on_def errLineReader_def delimiter_def)
  have h: "ErrorHandler \<in> set (error_listeners (child ?s))"
    "ExitHandler \<in> set (exit_listeners (child ?s))"
    by (simp_all add: discardStdio_def spawn_def on_def errLineReader_def delimiter_def)
  have d: "dap ?s = []"
    by (simp add: discardStdio_def spawn_def on_def errLineReader_def delimiter_def)
  from discarded_never_flushes
         [OF n h, of "\<lambda>b. b"
            "[ErrorEvent \<lparr>stack = None, message = ''boom''\<rparr>, ExitEvent (Some 2)]"]
       n d
  show ?thesis
    by (simp add: stack_or_message_def numberToString_def)
qed

end
